theory Spec2Isabelle
  imports Complex_Main "HOL-Library.Log_Nat"
begin

section \<open>The simulation engine of solar_panel_telemetry.py\<close>

text \<open>
  The embedding follows \<^verbatim>\<open>src/src/solar_panel_telemetry.py\<close> function by function.
  Conventions:
  \<^item> a Python \<^verbatim>\<open>float\<close> is a \<^typ>\<open>real\<close>: every value is finite and arithmetic is
    exact. The model has no rounding error, no underflow to zero, no infinity and no NaN,
    and a product or sum never overflows; what the program does on such values is outside
    it. The one overflow the program raises rather than absorbs, that of \<^verbatim>\<open>**\<close>, is
    modelled. A Python \<^verbatim>\<open>int\<close> is an \<^typ>\<open>int\<close>;
  \<^item> an exception is a value \<open>Inl e\<close> of the result type \<open>py_error + 'a\<close>;
  \<^item> the process-wide generator of the \<^verbatim>\<open>random\<close> module is an explicit state
    \<open>'g\<close>, threaded through every function that draws from it. The generator's
    algorithm is library code, so its three operations are parameters, collected in a
    record \<open>'g generator\<close>.
\<close>

subsection \<open>Python primitives\<close>

datatype py_error = ZeroDivisionError | OverflowError | ValueError | IndexError

text \<open>\<^verbatim>\<open>a / b\<close> on floats raises when the divisor is zero.\<close>

definition py_truediv :: "real \<Rightarrow> real \<Rightarrow> py_error + real" where
  "py_truediv a b = (if b = 0 then Inl ZeroDivisionError else Inr (a / b))"

text \<open>
  \<^verbatim>\<open>round(x, nd)\<close> rounds to the nearest multiple of \<open>10 ^ (- nd)\<close> and a tie
  goes to the even neighbour.
\<close>

definition round_half_even :: "real \<Rightarrow> int" where
  "round_half_even x =
     (let f = \<lfloor>x\<rfloor>; d = x - of_int f
      in if d < 1 / 2 then f
         else if 1 / 2 < d then f + 1
         else if even f then f else f + 1)"

definition py_round :: "real \<Rightarrow> nat \<Rightarrow> real" where
  "py_round x nd = of_int (round_half_even (x * 10 ^ nd)) / 10 ^ nd"

text \<open>
  A magnitude that a double cannot hold: at or above the midpoint between the largest
  double, \<open>2 ^ 1024 - 2 ^ 971\<close>, and \<open>2 ^ 1024\<close>, a value rounds to infinity.
\<close>

definition float_overflow :: "real \<Rightarrow> bool" where
  "float_overflow y \<longleftrightarrow> 2 ^ 1024 - 2 ^ 970 \<le> \<bar>y\<bar>"

text \<open>
  The integer a double holds after the conversion of the int \<open>n\<close>: \<open>n\<close> itself up to 53
  bits, and beyond them \<open>n\<close> rounded to its 53 leading bits, a tie going to the even
  neighbour.
\<close>

definition float_exponent :: "int \<Rightarrow> int" where
  "float_exponent n =
     (let m = \<bar>n\<bar>;
          e = nat (bitlen m - 53);
          q = round_half_even (of_int m / 2 ^ e)
      in sgn n * q * 2 ^ e)"

text \<open>
  \<^verbatim>\<open>x ** n\<close> for a float \<open>x\<close> and an int \<open>n\<close>. The exponent is converted to a float
  first, which raises OverflowError when it is too large; zero to a negative power raises
  ZeroDivisionError; a power too large for a double raises OverflowError; every other
  case is the integer power.
\<close>

definition py_pow_int :: "real \<Rightarrow> int \<Rightarrow> py_error + real" where
  "py_pow_int x n =
     (if float_overflow (of_int n) then Inl OverflowError
      else
        let k = float_exponent n
        in if 0 \<le> k then
             (let y = x ^ nat k
              in if float_overflow y then Inl OverflowError else Inr y)
           else if x = 0 then Inl ZeroDivisionError
           else
             (let y = 1 / x ^ nat (- k)
              in if float_overflow y then Inl OverflowError else Inr y))"

subsection \<open>The random module\<close>

text \<open>
  \<open>rng_seed\<close> is \<^verbatim>\<open>random.seed\<close> (the state a seed selects), \<open>rng_random\<close> is
  \<^verbatim>\<open>random.random\<close> (a sample and the next state) and \<open>rng_randbelow\<close> is the index
  draw behind \<^verbatim>\<open>random.choice\<close>.
\<close>

record 'g generator =
  rng_seed :: "int \<Rightarrow> 'g"
  rng_random :: "'g \<Rightarrow> real \<times> 'g"
  rng_randbelow :: "nat \<Rightarrow> 'g \<Rightarrow> nat \<times> 'g"

text \<open>\<^verbatim>\<open>random.uniform(a, b)\<close> is \<^verbatim>\<open>a + (b - a) * self.random()\<close>.\<close>

definition uniform :: "'g generator \<Rightarrow> real \<Rightarrow> real \<Rightarrow> 'g \<Rightarrow> real \<times> 'g" where
  "uniform G a b g = (case rng_random G g of (u, g') \<Rightarrow> (a + (b - a) * u, g'))"

text \<open>\<^verbatim>\<open>random.choice(seq)\<close> is \<^verbatim>\<open>seq[self._randbelow(len(seq))]\<close>.\<close>

definition choice :: "'g generator \<Rightarrow> 'a list \<Rightarrow> 'g \<Rightarrow> py_error + ('a \<times> 'g)" where
  "choice G seq g =
     (case rng_randbelow G (length seq) g of
        (k, g') \<Rightarrow> if k < length seq then Inr (seq ! k, g') else Inl IndexError)"

text \<open>
  The library's contract: \<^verbatim>\<open>random()\<close> returns a value in \<open>[0, 1)\<close> and the index
  draw a value below its bound.
\<close>

definition sound_generator :: "'g generator \<Rightarrow> bool" where
  "sound_generator G \<longleftrightarrow>
     (\<forall>g. 0 \<le> fst (rng_random G g) \<and> fst (rng_random G g) < 1) \<and>
     (\<forall>n g. 0 < n \<longrightarrow> fst (rng_randbelow G n g) < n)"

text \<open>
  A generator for concrete runs: the state counts the draws made, every sample is
  \<open>u\<close> and every index draw is \<open>0\<close>.
\<close>

definition fixed_generator :: "real \<Rightarrow> nat generator" where
  "fixed_generator u =
     \<lparr>rng_seed = (\<lambda>s. 0), rng_random = (\<lambda>k. (u, Suc k)),
      rng_randbelow = (\<lambda>n k. (0, Suc k))\<rparr>"

subsection \<open>Timestamps\<close>

text \<open>
  Of a \<^verbatim>\<open>datetime\<close> the engine reads the clock fields and the text
  \<^verbatim>\<open>isoformat()\<close> returns.
\<close>

record datetime =
  hour :: int
  minute :: int
  second :: int
  isoformat :: string

definition seconds_since_midnight :: "datetime \<Rightarrow> int" where
  "seconds_since_midnight t = hour t * 3600 + minute t * 60 + second t"

subsection \<open>Environment model\<close>

definition smoothstep :: "real \<Rightarrow> real" where
  "smoothstep x = 6 * x ^ 5 - 15 * x ^ 4 + 10 * x ^ 3"

definition diurnal_irradiance_factor :: "datetime \<Rightarrow> int \<Rightarrow> int \<Rightarrow> py_error + real" where
  "diurnal_irradiance_factor ts dl_start dl_end =
     (let ssm = seconds_since_midnight ts
      in if ssm \<le> dl_start \<or> ssm \<ge> dl_end then Inr 0
         else
           let span = dl_end - dl_start
           in (case py_truediv (of_int (ssm - dl_start)) (of_int span) of
                 Inl e \<Rightarrow> Inl e
               | Inr x \<Rightarrow>
                   (let base = sin (pi * x)
                    in if base < 0 then Inr 0
                       else
                         let shaped = base powr (3 / 2);
                             edge = smoothstep x
                         in Inr (max 0 (min 1 (shaped * (7 / 10 + 3 / 10 * edge)))))))"

definition ambient_temperature_c :: "datetime \<Rightarrow> real \<Rightarrow> real" where
  "ambient_temperature_c ts base =
     (let ssm = seconds_since_midnight ts;
          phase = (of_int ssm / 86400) * 2 * pi
      in base + 8 * sin (phase - pi / 6))"

definition panel_cell_temp_c :: "real \<Rightarrow> real \<Rightarrow> real" where
  "panel_cell_temp_c ambient_c irradiance_wm2 = ambient_c + (irradiance_wm2 / 800) * 20"

definition orientation_tilt_modifier :: "real \<Rightarrow> real \<Rightarrow> real" where
  "orientation_tilt_modifier orientation tilt =
     (let orient_score = 1 - (\<bar>180 - orientation\<bar> / 180) * (1 / 10);
          tilt_score = 1 - (\<bar>25 - tilt\<bar> / 25) * (8 / 100)
      in max (85 / 100) (min (105 / 100) (orient_score * tilt_score)))"

subsection \<open>Fault model\<close>

definition FAULT_CATALOG :: "(string \<times> string \<times> real) list" where
  "FAULT_CATALOG =
     [(''NONE'', ''OK'', 0),
      (''SHADING'', ''WARNING'', 15 / 10000),
      (''HOTSPOT'', ''FAULT'', 5 / 10000),
      (''STRING_OPEN'', ''FAULT'', 4 / 10000),
      (''INVERTER_TRIP'', ''FAULT'', 3 / 10000),
      (''SOILING'', ''WARNING'', 8 / 10000)]"

text \<open>
  The loop of \<^verbatim>\<open>assign_fault\<close> over the catalog, from the sample \<open>r\<close> and the mass
  \<open>acc\<close> accumulated so far; the empty list is the fall-through after the loop.
\<close>

fun walk_catalog :: "real \<Rightarrow> real \<Rightarrow> (string \<times> string \<times> real) list \<Rightarrow> string \<times> string" where
  "walk_catalog r acc [] = (''NONE'', ''OK'')"
| "walk_catalog r acc ((fault, status, p) # rest) =
     (let acc' = acc + p
      in if r \<le> acc' then (fault, status) else walk_catalog r acc' rest)"

definition assign_fault :: "'g generator \<Rightarrow> 'g \<Rightarrow> (string \<times> string) \<times> 'g" where
  "assign_fault G g = (case rng_random G g of (r, g') \<Rightarrow> (walk_catalog r 0 FAULT_CATALOG, g'))"

text \<open>The mass the walk has accumulated when it falls through to the default.\<close>

definition catalog_mass :: real where
  "catalog_mass = sum_list (map (\<lambda>(fault, status, p). p) FAULT_CATALOG)"

subsection \<open>Fleet generator\<close>

record PanelSpec =
  panel_id :: string
  p_stc_w :: real
  v_mppt :: real
  i_stc_a :: real
  temp_coeff_p :: real
  degradation_per_day :: real
  efficiency_jitter :: real
  orientation_deg :: real
  tilt_deg :: real
  string_id :: string

text \<open>The decimal digits of a natural number, and the format \<^verbatim>\<open>{k:0wd}\<close> for \<open>k \<ge> 0\<close>.\<close>

fun dec_digits :: "nat \<Rightarrow> string" where
  "dec_digits n =
     (if n < 10 then [''0123456789'' ! n]
      else dec_digits (n div 10) @ [''0123456789'' ! (n mod 10)])"

declare dec_digits.simps [simp del]

definition format_0d :: "nat \<Rightarrow> nat \<Rightarrow> string" where
  "format_0d w k = (let ds = dec_digits k in replicate (w - length ds) (CHR ''0'') @ ds)"

text \<open>One iteration of the loop of \<^verbatim>\<open>generate_panel_fleet\<close>, for the index \<open>i\<close>.\<close>

definition make_panel :: "'g generator \<Rightarrow> nat \<Rightarrow> 'g \<Rightarrow> py_error + (PanelSpec \<times> 'g)" where
  "make_panel G i g0 =
     (case uniform G 370 430 g0 of (p_stc, g1) \<Rightarrow>
     (case uniform G 33 40 g1 of (v_mppt', g2) \<Rightarrow>
     (case py_truediv p_stc v_mppt' of
        Inl e \<Rightarrow> Inl e
      | Inr q \<Rightarrow>
     (case uniform G (95 / 100) (105 / 100) g2 of (f, g3) \<Rightarrow>
     (let i_stc = q * f in
     (case uniform G (- 45 / 10000) (- 35 / 10000) g3 of (coeff, g4) \<Rightarrow>
     (case uniform G (3 / 100000) (7 / 100000) g4 of (degr, g5) \<Rightarrow>
     (case uniform G (98 / 100) (102 / 100) g5 of (jitter, g6) \<Rightarrow>
     (case choice G [150, 165, 180, 195, 210 :: int] g6 of
        Inl e \<Rightarrow> Inl e
      | Inr (oc, g7) \<Rightarrow>
     (case uniform G (- 5) 5 g7 of (oj, g8) \<Rightarrow>
     (let orient = of_int oc + oj in
     (case choice G [15, 20, 25, 30, 35 :: int] g8 of
        Inl e \<Rightarrow> Inl e
      | Inr (tc, g9) \<Rightarrow>
     (case uniform G (- 2) 2 g9 of (tj, g10) \<Rightarrow>
     (let tilt = of_int tc + tj;
          string = ''S'' @ format_0d 2 (1 + i div 20)
      in Inr (\<lparr>panel_id = ''P'' @ format_0d 5 (i + 1),
               p_stc_w = p_stc,
               v_mppt = v_mppt',
               i_stc_a = i_stc,
               temp_coeff_p = coeff,
               degradation_per_day = degr,
               efficiency_jitter = jitter,
               orientation_deg = orient,
               tilt_deg = tilt,
               string_id = string\<rparr>, g10)))))))))))))))"

text \<open>The loop over \<^verbatim>\<open>range(n)\<close>, appending to \<open>fleet\<close>.\<close>

fun fleet_loop ::
  "'g generator \<Rightarrow> nat list \<Rightarrow> PanelSpec list \<Rightarrow> 'g \<Rightarrow> py_error + (PanelSpec list \<times> 'g)" where
  "fleet_loop G [] fleet g = Inr (fleet, g)"
| "fleet_loop G (i # is) fleet g =
     (case make_panel G i g of
        Inl e \<Rightarrow> Inl e
      | Inr (spec, g') \<Rightarrow> fleet_loop G is (fleet @ [spec]) g')"

text \<open>
  \<open>g\<close> is the state of the generator when the function is called: the first statement,
  \<^verbatim>\<open>random.seed(seed)\<close>, replaces it.
\<close>

definition generate_panel_fleet ::
  "'g generator \<Rightarrow> int \<Rightarrow> int \<Rightarrow> 'g \<Rightarrow> py_error + (PanelSpec list \<times> 'g)" where
  "generate_panel_fleet G n seed g = fleet_loop G [0..<nat n] [] (rng_seed G seed)"

subsection \<open>Telemetry of one panel at one timestamp\<close>

text \<open>The dictionary \<^verbatim>\<open>compute_telemetry\<close> returns, one field per key.\<close>

record telemetry =
  timestamp_utc :: string
  rec_panel_id :: string
  rec_string_id :: string
  status :: string
  fault :: string
  power_w :: real
  voltage_v :: real
  current_a :: real
  irradiance_wm2 :: real
  ambient_temp_c :: real
  cell_temp_c :: real
  rec_orientation_deg :: real
  rec_tilt_deg :: real

text \<open>\<^verbatim>\<open>s.replace("+00:00", "Z")\<close>.\<close>

fun replace_utc_offset :: "string \<Rightarrow> string" where
  "replace_utc_offset [] = []"
| "replace_utc_offset (c # cs) =
     (if take 6 (c # cs) = ''+00:00'' then ''Z'' @ replace_utc_offset (drop 5 cs)
      else c # replace_utc_offset cs)"

text \<open>
  Voltage and current around the operating point: the branch on \<^verbatim>\<open>p_dc <= 0.1\<close>.
  The result is \<open>(v, i)\<close> and the generator's next state.
\<close>

definition mppt_point ::
  "'g generator \<Rightarrow> PanelSpec \<Rightarrow> real \<Rightarrow> 'g \<Rightarrow> py_error + (real \<times> real \<times> 'g)" where
  "mppt_point G spec p_dc g =
     (if p_dc \<le> 1 / 10 then
        (case uniform G (92 / 100) (105 / 100) g of (u, g') \<Rightarrow> Inr (v_mppt spec * u, 0, g'))
      else
        (case uniform G (97 / 100) (103 / 100) g of (u, g') \<Rightarrow>
           (let v = v_mppt spec * u
            in (case py_truediv p_dc v of
                  Inl e \<Rightarrow> Inl e
                | Inr i \<Rightarrow> Inr (v, i, g')))))"

text \<open>
  The side effects of the assigned fault on \<open>(p_dc, i, cell_c)\<close>: the block under
  \<^verbatim>\<open>if fault != "NONE"\<close>.
\<close>

definition fault_effects ::
  "'g generator \<Rightarrow> string \<Rightarrow> real \<Rightarrow> real \<Rightarrow> real \<Rightarrow> 'g \<Rightarrow> real \<times> real \<times> real \<times> 'g" where
  "fault_effects G flt p_dc i cell_c g =
     (if flt \<noteq> ''NONE'' then
        if flt = ''SHADING'' then
          (case uniform G (6 / 10) (9 / 10) g of (f, g') \<Rightarrow> (p_dc * f, i, cell_c, g'))
        else if flt = ''HOTSPOT'' then
          (case uniform G (4 / 10) (8 / 10) g of (f, g') \<Rightarrow>
           case uniform G 3 8 g' of (b, g'') \<Rightarrow> (p_dc * f, i, cell_c + b, g''))
        else if flt = ''STRING_OPEN'' then (0, 0, cell_c, g)
        else if flt = ''INVERTER_TRIP'' then (0, 0, cell_c, g)
        else if flt = ''SOILING'' then
          (case uniform G (8 / 10) (95 / 100) g of (f, g') \<Rightarrow> (p_dc * f, i, cell_c, g'))
        else (p_dc, i, cell_c, g)
      else (p_dc, i, cell_c, g))"

text \<open>The current recomputed after the fault, with its guard on \<open>v\<close>.\<close>

definition recompute_current :: "real \<Rightarrow> real \<Rightarrow> real" where
  "recompute_current p_dc v = (if v > 0 then p_dc / v else 0)"

text \<open>
  The power before the fault: from the irradiance to the clamp
  \<^verbatim>\<open>max(0.0, min(spec.p_stc_w * 1.10, p_noisy))\<close>; \<open>noise\<close> is the draw
  \<^verbatim>\<open>random.uniform(0.98, 1.02)\<close>.
\<close>

definition clamped_power ::
  "PanelSpec \<Rightarrow> real \<Rightarrow> real \<Rightarrow> real \<Rightarrow> real \<Rightarrow> real \<Rightarrow> real" where
  "clamped_power spec irr cell_c orient_mod degr_factor noise =
     (let p_raw = p_stc_w spec * (irr / 1000) * efficiency_jitter spec * orient_mod * degr_factor;
          delta_t = cell_c - 25;
          p_temp = p_raw * (1 + temp_coeff_p spec * delta_t);
          p_noisy = p_temp * noise
      in max 0 (min (p_stc_w spec * (110 / 100)) p_noisy))"

definition compute_telemetry ::
  "'g generator \<Rightarrow> PanelSpec \<Rightarrow> datetime \<Rightarrow> int \<Rightarrow> int \<Rightarrow> int \<Rightarrow> real \<Rightarrow> 'g
     \<Rightarrow> py_error + (telemetry \<times> 'g)" where
  "compute_telemetry G spec ts dl_start dl_end day_index cloud_factor g0 =
     (case diurnal_irradiance_factor ts dl_start dl_end of
        Inl e \<Rightarrow> Inl e
      | Inr sun_f \<Rightarrow>
     (let irr = 1000 * sun_f * cloud_factor;
          amb_c = ambient_temperature_c ts 26;
          cell_c = panel_cell_temp_c amb_c irr;
          orient_mod = orientation_tilt_modifier (orientation_deg spec) (tilt_deg spec)
      in
     (case py_pow_int (1 - degradation_per_day spec) day_index of
        Inl e \<Rightarrow> Inl e
      | Inr degr_factor \<Rightarrow>
     (case uniform G (98 / 100) (102 / 100) g0 of (noise, g1) \<Rightarrow>
     (let p_dc = clamped_power spec irr cell_c orient_mod degr_factor noise in
     (case mppt_point G spec p_dc g1 of
        Inl e \<Rightarrow> Inl e
      | Inr (v, i, g2) \<Rightarrow>
     (let irr' = (if irr < 1 then 0 else irr) in
     (case assign_fault G g2 of ((flt, stat), g3) \<Rightarrow>
     (case fault_effects G flt p_dc i cell_c g3 of (p_dc', i', cell_c', g4) \<Rightarrow>
     (let i'' = recompute_current p_dc' v;
          i_out = max 0 i'';
          v_out = max 0 v;
          p_out = max 0 p_dc'
      in Inr (\<lparr>timestamp_utc = replace_utc_offset (isoformat ts),
               rec_panel_id = panel_id spec,
               rec_string_id = string_id spec,
               status = stat,
               fault = flt,
               power_w = py_round p_out 2,
               voltage_v = py_round v_out 2,
               current_a = py_round i_out 3,
               irradiance_wm2 = py_round irr' 1,
               ambient_temp_c = py_round amb_c 2,
               cell_temp_c = py_round cell_c' 2,
               rec_orientation_deg = py_round (orientation_deg spec) 1,
               rec_tilt_deg = py_round (tilt_deg spec) 1\<rparr>, g4)))))))))))"

subsection \<open>The daylight window given on the command line\<close>

text \<open>\<^verbatim>\<open>s.split(c)\<close> for a one-character separator; \<open>cur\<close> is the piece being read.\<close>

fun split_acc :: "char \<Rightarrow> string \<Rightarrow> string \<Rightarrow> string list" where
  "split_acc c cur [] = [cur]"
| "split_acc c cur (x # xs) =
     (if x = c then cur # split_acc c [] xs else split_acc c (cur @ [x]) xs)"

definition split_on :: "char \<Rightarrow> string \<Rightarrow> string list" where
  "split_on c s = split_acc c [] s"

text \<open>Unpacking into two names raises unless there are exactly two items.\<close>

fun unpack2 :: "'a list \<Rightarrow> py_error + ('a \<times> 'a)" where
  "unpack2 [a, b] = Inr (a, b)"
| "unpack2 xs = Inl ValueError"

text \<open>
  \<^verbatim>\<open>[int(x) for x in pieces]\<close>. The builtin \<^verbatim>\<open>int\<close> is the parameter \<open>to_int\<close>;
  \<open>None\<close> is its ValueError.
\<close>

fun int_fields :: "(string \<Rightarrow> int option) \<Rightarrow> string list \<Rightarrow> py_error + int list" where
  "int_fields to_int [] = Inr []"
| "int_fields to_int (x # xs) =
     (case to_int x of
        None \<Rightarrow> Inl ValueError
      | Some k \<Rightarrow>
          (case int_fields to_int xs of
             Inl e \<Rightarrow> Inl e
           | Inr ks \<Rightarrow> Inr (k # ks)))"

text \<open>The body of the \<^verbatim>\<open>try\<close> block.\<close>

definition parse_window_body :: "(string \<Rightarrow> int option) \<Rightarrow> string \<Rightarrow> py_error + (int \<times> int)" where
  "parse_window_body to_int daylight =
     (case unpack2 (split_on (CHR ''-'') daylight) of
        Inl err \<Rightarrow> Inl err
      | Inr (s, e) \<Rightarrow>
     (case int_fields to_int (split_on (CHR '':'') s) of
        Inl err \<Rightarrow> Inl err
      | Inr sf \<Rightarrow>
     (case unpack2 sf of
        Inl err \<Rightarrow> Inl err
      | Inr (sh, sm) \<Rightarrow>
     (case int_fields to_int (split_on (CHR '':'') e) of
        Inl err \<Rightarrow> Inl err
      | Inr ef \<Rightarrow>
     (case unpack2 ef of
        Inl err \<Rightarrow> Inl err
      | Inr (eh, em) \<Rightarrow>
     (let start_s = sh * 3600 + sm * 60;
          end_s = eh * 3600 + em * 60
      in Inr (start_s, end_s)))))))"

text \<open>\<^verbatim>\<open>except Exception\<close> catches every error of the body.\<close>

definition parse_daylight_window :: "(string \<Rightarrow> int option) \<Rightarrow> string \<Rightarrow> py_error + (int \<times> int)" where
  "parse_daylight_window to_int daylight =
     (case parse_window_body to_int daylight of
        Inr w \<Rightarrow> Inr w
      | Inl err \<Rightarrow> Inr (6 * 3600, 18 * 3600))"

text \<open>
  An instance of \<^verbatim>\<open>int\<close> for concrete runs: it accepts the non-empty strings of ASCII
  digits, on which it agrees with the builtin.
\<close>

definition digits_to_int :: "string \<Rightarrow> int option" where
  "digits_to_int s =
     (if s \<noteq> [] \<and> list_all (\<lambda>c. c \<in> set ''0123456789'') s
      then Some (foldl (\<lambda>a c. 10 * a + (int (of_char c) - 48)) 0 s)
      else None)"

text \<open>
  A string that does not parse as \<^verbatim>\<open>HH:MM-HH:MM\<close>, in the specification's words: a
  wrong number of parts between \<^verbatim>\<open>-\<close>, or in one of them a wrong number of parts
  between \<^verbatim>\<open>:\<close> or a field that is not an integer.
\<close>

definition malformed_window :: "(string \<Rightarrow> int option) \<Rightarrow> string \<Rightarrow> bool" where
  "malformed_window to_int daylight \<longleftrightarrow>
     length (split_on (CHR ''-'') daylight) \<noteq> 2 \<or>
     list_ex (\<lambda>part. length (split_on (CHR '':'') part) \<noteq> 2 \<or>
                list_ex (\<lambda>field. to_int field = None) (split_on (CHR '':'') part))
       (split_on (CHR ''-'') daylight)"

subsection \<open>Concrete inputs\<close>

text \<open>Timestamps of one day, a panel of the fleet's ranges and a panel of 8 mW.\<close>

definition eight_am :: datetime where
  "eight_am = \<lparr>hour = 8, minute = 0, second = 0, isoformat = ''2025-10-18T08:00:00+00:00''\<rparr>"

definition noon :: datetime where
  "noon = \<lparr>hour = 12, minute = 0, second = 0, isoformat = ''2025-10-18T12:00:00+00:00''\<rparr>"

definition three_pm :: datetime where
  "three_pm = \<lparr>hour = 15, minute = 0, second = 0, isoformat = ''2025-10-18T15:00:00+00:00''\<rparr>"

definition example_panel :: PanelSpec where
  "example_panel =
     \<lparr>panel_id = ''P00001'', p_stc_w = 400, v_mppt = 36, i_stc_a = 100 / 9,
      temp_coeff_p = - 4 / 1000, degradation_per_day = 5 / 100000, efficiency_jitter = 1,
      orientation_deg = 180, tilt_deg = 25, string_id = ''S01''\<rparr>"

definition tiny_panel :: PanelSpec where
  "tiny_panel = example_panel\<lparr>p_stc_w := 8 / 1000\<rparr>"

section \<open>Properties\<close>

subsection \<open>Rounding\<close>

lemma round_half_even_bounds:
  "x - 1 / 2 \<le> of_int (round_half_even x) \<and> of_int (round_half_even x) \<le> x + 1 / 2"
  unfolding round_half_even_def Let_def by (auto; linarith)

lemma round_half_even_nonneg: "0 \<le> x \<Longrightarrow> 0 \<le> round_half_even x"
  unfolding round_half_even_def Let_def by (auto; linarith)

lemma round_half_even_zero: "round_half_even 0 = 0"
  by (simp add: round_half_even_def)

lemma py_round_zero: "py_round 0 nd = 0"
  by (simp add: py_round_def round_half_even_zero)

lemma py_round_nonneg: "0 \<le> x \<Longrightarrow> 0 \<le> py_round x nd"
  by (simp add: py_round_def round_half_even_nonneg)

lemma py_round_upper: "py_round x nd \<le> x + 1 / (2 * 10 ^ nd)"
proof -
  have "of_int (round_half_even (x * 10 ^ nd)) \<le> x * 10 ^ nd + 1 / 2"
    using round_half_even_bounds by blast
  then have "of_int (round_half_even (x * 10 ^ nd)) / 10 ^ nd \<le> (x * 10 ^ nd + 1 / 2) / 10 ^ nd"
    by (simp add: divide_right_mono)
  also have "\<dots> = x + 1 / (2 * 10 ^ nd)"
    by (simp add: field_simps)
  finally show ?thesis
    by (simp add: py_round_def)
qed

subsection \<open>Powers\<close>

lemma round_half_even_of_int: "round_half_even (of_int k) = k"
  by (simp add: round_half_even_def)

lemma float_overflow_53:
  assumes "\<bar>y\<bar> \<le> 2 ^ 53"
  shows "\<not> float_overflow y"
proof -
  have "(2::real) ^ 1024 = 2 ^ 970 * 2 ^ 54"
    by (simp flip: power_add)
  moreover have "(1::real) \<le> 2 ^ 970"
    by (rule one_le_power) simp
  then have "(2::real) ^ 54 - 1 \<le> 2 ^ 970 * (2 ^ 54 - 1)"
    by (simp add: mult_le_cancel_right1)
  ultimately have "(2::real) ^ 53 < 2 ^ 1024 - 2 ^ 970"
    by (simp add: algebra_simps)
  then show ?thesis
    using assms by (simp add: float_overflow_def)
qed

lemma float_exponent_zero: "float_exponent 0 = 0"
  by (simp add: float_exponent_def)

lemma float_exponent_nonneg: "0 \<le> n \<Longrightarrow> 0 \<le> float_exponent n"
  by (simp add: float_exponent_def Let_def round_half_even_nonneg sgn_if)

lemma float_exponent_exact:
  assumes "\<bar>n\<bar> < 2 ^ 53"
  shows "float_exponent n = n"
proof -
  have "bitlen \<bar>n\<bar> \<le> 53"
    using assms by (simp add: bitlen_le_iff_power)
  then have e: "nat (bitlen \<bar>n\<bar> - 53) = 0"
    by simp
  have "round_half_even (of_int \<bar>n\<bar> / 2 ^ 0) = \<bar>n\<bar>"
    using round_half_even_of_int [of "\<bar>n\<bar>"] by simp
  then have "float_exponent n = sgn n * \<bar>n\<bar>"
    unfolding float_exponent_def Let_def e by simp
  then show ?thesis
    by (simp add: sgn_if)
qed

lemma py_pow_int_zero: "py_pow_int x 0 = Inr 1"
  by (simp add: py_pow_int_def float_exponent_zero float_overflow_53)

lemma py_pow_int_total:
  assumes "0 \<le> x" "x \<le> 1" "0 \<le> n" "\<not> float_overflow (of_int n)"
  shows "\<exists>y. py_pow_int x n = Inr y"
proof -
  have k: "0 \<le> float_exponent n"
    using assms(3) by (rule float_exponent_nonneg)
  have "0 \<le> x ^ nat (float_exponent n)" "x ^ nat (float_exponent n) \<le> 1"
    using assms(1,2) by (simp_all add: power_le_one)
  then have "\<not> float_overflow (x ^ nat (float_exponent n))"
    by (intro float_overflow_53) simp
  then show ?thesis
    using k assms(4) by (simp add: py_pow_int_def Let_def)
qed

text \<open>Ten to the power 400 is beyond a double: the program raises.\<close>

lemma py_pow_int_overflow_example: "py_pow_int 10 400 = Inl OverflowError"
proof -
  have "(2::real) ^ 1024 \<le> 10 ^ 400"
  proof -
    have "(2::real) ^ 1024 \<le> 16 ^ 256" by simp
    also have "\<dots> \<le> 10 ^ 400" by simp
    finally show ?thesis .
  qed
  then have "float_overflow (10 ^ 400)"
    by (simp add: float_overflow_def)
  moreover have "\<not> float_overflow (of_int 400)"
    by (intro float_overflow_53) simp
  ultimately show ?thesis
    by (simp add: py_pow_int_def Let_def float_exponent_exact)
qed

subsection \<open>The concrete timestamps\<close>

lemma ssm_eight_am: "seconds_since_midnight eight_am = 28800"
  by (simp add: seconds_since_midnight_def eight_am_def)

lemma ssm_noon: "seconds_since_midnight noon = 43200"
  by (simp add: seconds_since_midnight_def noon_def)

lemma ssm_three_pm: "seconds_since_midnight three_pm = 54000"
  by (simp add: seconds_since_midnight_def three_pm_def)

subsection \<open>Irradiance factor\<close>

lemma smoothstep_factor: "smoothstep x = x ^ 3 * (6 * (x - 5 / 4)\<^sup>2 + 5 / 8)"
  by (simp add: smoothstep_def power2_eq_square power3_eq_cube algebra_simps)
    (simp add: power_numeral_reduce algebra_simps)

lemma smoothstep_nonneg:
  assumes "0 \<le> x"
  shows "0 \<le> smoothstep x"
proof -
  have cube: "0 \<le> x ^ 3"
    using assms by simp
  have "0 \<le> (x - 5 / 4)\<^sup>2"
    by (rule zero_le_power2)
  then have quad: "0 \<le> 6 * (x - 5 / 4)\<^sup>2 + 5 / 8"
    by linarith
  have "0 \<le> x ^ 3 * (6 * (x - 5 / 4)\<^sup>2 + 5 / 8)"
    using cube quad by (rule mult_nonneg_nonneg)
  then show ?thesis
    by (simp add: smoothstep_factor)
qed

lemma diurnal_outside:
  "seconds_since_midnight ts \<le> dl_start \<or> dl_end \<le> seconds_since_midnight ts
   \<Longrightarrow> diurnal_irradiance_factor ts dl_start dl_end = Inr 0"
  by (simp add: diurnal_irradiance_factor_def Let_def)

lemma shaped_positive:
  assumes "0 < x" "x < 1"
  shows "0 < sin (pi * x) powr (3 / 2) * (7 / 10 + 3 / 10 * smoothstep x)"
proof -
  have "0 < pi * x" "pi * x < pi"
    using assms by simp_all
  then have "0 < sin (pi * x)"
    by (rule sin_gt_zero)
  then have "0 < sin (pi * x) powr (3 / 2)"
    by simp
  moreover have "0 \<le> smoothstep x"
    using assms by (simp add: smoothstep_nonneg)
  then have "0 < 7 / 10 + 3 / 10 * smoothstep x"
    by simp
  ultimately show ?thesis
    by (rule mult_pos_pos)
qed

lemma diurnal_inside:
  assumes "dl_start < seconds_since_midnight ts" "seconds_since_midnight ts < dl_end"
  shows "\<exists>y. diurnal_irradiance_factor ts dl_start dl_end = Inr y \<and> 0 < y \<and> y \<le> 1"
proof -
  define x where
    "x = (of_int (seconds_since_midnight ts - dl_start) :: real) / of_int (dl_end - dl_start)"
  have span: "(of_int (dl_end - dl_start) :: real) \<noteq> 0"
    using assms by simp
  have x: "0 < x" "x < 1"
    using assms by (simp_all add: x_def)
  have pos: "0 < sin (pi * x) powr (3 / 2) * (7 / 10 + 3 / 10 * smoothstep x)"
    using x by (rule shaped_positive)
  have "0 < pi * x" "pi * x < pi"
    using x by simp_all
  then have s: "0 < sin (pi * x)"
    by (rule sin_gt_zero)
  have "diurnal_irradiance_factor ts dl_start dl_end =
      Inr (max 0 (min 1 (sin (pi * x) powr (3 / 2) * (7 / 10 + 3 / 10 * smoothstep x))))"
    using assms span s unfolding diurnal_irradiance_factor_def py_truediv_def Let_def x_def
    by (simp del: of_int_diff)
  with pos show ?thesis
    by auto
qed

lemma diurnal_total:
  "\<exists>y. diurnal_irradiance_factor ts dl_start dl_end = Inr y \<and> 0 \<le> y \<and> y \<le> 1"
proof (cases "dl_start < seconds_since_midnight ts \<and> seconds_since_midnight ts < dl_end")
  case True
  then obtain y where "diurnal_irradiance_factor ts dl_start dl_end = Inr y" "0 < y" "y \<le> 1"
    using diurnal_inside by blast
  then show ?thesis
    by auto
next
  case False
  then have "diurnal_irradiance_factor ts dl_start dl_end = Inr 0"
    by (intro diurnal_outside) linarith
  then show ?thesis
    by simp
qed

lemma diurnal_noon: "diurnal_irradiance_factor noon 21600 64800 = Inr (17 / 20)"
  by (simp add: diurnal_irradiance_factor_def Let_def ssm_noon py_truediv_def smoothstep_def
      power_numeral_reduce)

subsection \<open>Ambient temperature\<close>

lemma ambient_formula:
  "ambient_temperature_c ts base =
     base + 8 * sin ((of_int (seconds_since_midnight ts) / 86400) * 2 * pi - pi / 6)"
  by (simp add: ambient_temperature_c_def Let_def)

lemma ambient_upper: "ambient_temperature_c ts base \<le> base + 8"
  by (simp add: ambient_temperature_c_def Let_def)

lemma ambient_eight_am: "ambient_temperature_c eight_am base = base + 8"
proof -
  have "(28800 / 86400) * 2 * pi - pi / 6 = pi / 2"
    by (simp add: field_simps)
  then show ?thesis
    by (simp add: ambient_temperature_c_def Let_def ssm_eight_am)
qed

lemma ambient_three_pm: "ambient_temperature_c three_pm base = base - 8 * sin (pi / 12)"
proof -
  have "(54000 / 86400) * 2 * pi - pi / 6 = pi / 12 + pi"
    by (simp add: field_simps)
  then have "sin ((54000 / 86400) * 2 * pi - pi / 6) = - sin (pi / 12)"
    by (simp only: sin_periodic_pi)
  then show ?thesis
    by (simp add: ambient_temperature_c_def Let_def ssm_three_pm)
qed

lemma ambient_noon: "ambient_temperature_c noon 26 = 30"
proof -
  have "(43200 / 86400) * 2 * pi - pi / 6 = pi - pi / 6"
    by (simp add: field_simps)
  then have "sin ((43200 / 86400) * 2 * pi - pi / 6) = 1 / 2"
    by (simp only: sin_pi_minus sin_30)
  then show ?thesis
    by (simp add: ambient_temperature_c_def Let_def ssm_noon)
qed

lemma sin_pi_12_positive: "0 < sin (pi / 12)"
  by (rule sin_gt_zero) simp_all

subsection \<open>Telemetry: the shape of a returned record, and when one is returned\<close>

lemma compute_telemetry_cases:
  assumes "compute_telemetry G spec ts dl_start dl_end day_index cloud_factor g0 = Inr (rec, g')"
  obtains sun_f degr_factor noise g1 v i g2 flt stat g3 p_dc' i' cell_c' where
    "diurnal_irradiance_factor ts dl_start dl_end = Inr sun_f"
    "py_pow_int (1 - degradation_per_day spec) day_index = Inr degr_factor"
    "uniform G (98 / 100) (102 / 100) g0 = (noise, g1)"
    "mppt_point G spec
       (clamped_power spec (1000 * sun_f * cloud_factor)
          (panel_cell_temp_c (ambient_temperature_c ts 26) (1000 * sun_f * cloud_factor))
          (orientation_tilt_modifier (orientation_deg spec) (tilt_deg spec)) degr_factor noise)
       g1 = Inr (v, i, g2)"
    "assign_fault G g2 = ((flt, stat), g3)"
    "fault_effects G flt
       (clamped_power spec (1000 * sun_f * cloud_factor)
          (panel_cell_temp_c (ambient_temperature_c ts 26) (1000 * sun_f * cloud_factor))
          (orientation_tilt_modifier (orientation_deg spec) (tilt_deg spec)) degr_factor noise)
       i (panel_cell_temp_c (ambient_temperature_c ts 26) (1000 * sun_f * cloud_factor)) g3
     = (p_dc', i', cell_c', g')"
    "fault rec = flt"
    "power_w rec = py_round (max 0 p_dc') 2"
    "voltage_v rec = py_round (max 0 v) 2"
    "current_a rec = py_round (max 0 (recompute_current p_dc' v)) 3"
    "irradiance_wm2 rec =
       py_round (if 1000 * sun_f * cloud_factor < 1 then 0 else 1000 * sun_f * cloud_factor) 1"
  using assms unfolding compute_telemetry_def Let_def
  by (auto split: sum.splits prod.splits)

lemma uniform_range:
  assumes "sound_generator G" "a \<le> b" "uniform G a b g = (x, g')"
  shows "a \<le> x \<and> x \<le> b"
proof -
  obtain u where u: "rng_random G g = (u, g')" "x = a + (b - a) * u"
    using assms(3) by (auto simp: uniform_def split: prod.splits)
  have "0 \<le> fst (rng_random G g) \<and> fst (rng_random G g) < 1"
    using assms(1) by (simp add: sound_generator_def)
  then have r: "0 \<le> u" "u \<le> 1" using u(1) by simp_all
  have "0 \<le> (b - a) * u" using assms(2) r by simp
  moreover have "(b - a) * u \<le> (b - a) * 1"
    using assms(2) r by (intro mult_left_mono) simp_all
  ultimately show ?thesis using u(2) by simp
qed

lemma mppt_point_positive:
  assumes "sound_generator G" "0 < v_mppt spec"
  shows "\<exists>v i g'. mppt_point G spec p_dc g = Inr (v, i, g') \<and> 0 < v"
proof (cases "p_dc \<le> 1 / 10")
  case True
  obtain u g' where u: "uniform G (92 / 100) (105 / 100) g = (u, g')"
    by (cases "uniform G (92 / 100) (105 / 100) g")
  then have "92 / 100 \<le> u" using uniform_range [OF assms(1) _ u] by simp
  then have "0 < v_mppt spec * u" using assms(2) by (intro mult_pos_pos) simp_all
  then show ?thesis using True u by (simp add: mppt_point_def)
next
  case False
  obtain u g' where u: "uniform G (97 / 100) (103 / 100) g = (u, g')"
    by (cases "uniform G (97 / 100) (103 / 100) g")
  then have "97 / 100 \<le> u" using uniform_range [OF assms(1) _ u] by simp
  then have "0 < u" by simp
  then show ?thesis using False u assms(2) by (simp add: mppt_point_def py_truediv_def Let_def)
qed

lemma compute_telemetry_returns:
  assumes "sound_generator G" "0 < v_mppt spec"
    and "0 \<le> degradation_per_day spec" "degradation_per_day spec \<le> 1"
    and "0 \<le> day_index" "\<not> float_overflow (of_int day_index)"
  shows "\<exists>rec g'. compute_telemetry G spec ts dl_start dl_end day_index cloud_factor g0 = Inr (rec, g')"
proof -
  obtain sun_f where s: "diurnal_irradiance_factor ts dl_start dl_end = Inr sun_f"
    using diurnal_total by blast
  obtain d where d: "py_pow_int (1 - degradation_per_day spec) day_index = Inr d"
    using assms(3-6) py_pow_int_total [of "1 - degradation_per_day spec" day_index] by auto
  obtain noise g1 where n: "uniform G (98 / 100) (102 / 100) g0 = (noise, g1)"
    by (cases "uniform G (98 / 100) (102 / 100) g0")
  define p where "p = clamped_power spec (1000 * sun_f * cloud_factor)
          (panel_cell_temp_c (ambient_temperature_c ts 26) (1000 * sun_f * cloud_factor))
          (orientation_tilt_modifier (orientation_deg spec) (tilt_deg spec)) d noise"
  obtain v i g2 where m: "mppt_point G spec p g1 = Inr (v, i, g2)"
    using mppt_point_positive [OF assms(1,2)] by blast
  show ?thesis
    unfolding compute_telemetry_def Let_def
    using s d n m unfolding p_def
    by (simp split: prod.splits)
qed

subsection \<open>Telemetry at noon, computed\<close>

lemma timestamp_noon: "replace_utc_offset (isoformat noon) = ''2025-10-18T12:00:00Z''"
  by (simp add: noon_def)

lemmas telemetry_eval =
  compute_telemetry_def diurnal_noon ambient_noon timestamp_noon panel_cell_temp_c_def
  orientation_tilt_modifier_def py_pow_int_zero uniform_def fixed_generator_def clamped_power_def
  mppt_point_def py_truediv_def assign_fault_def FAULT_CATALOG_def fault_effects_def
  recompute_current_def py_round_def round_half_even_def Let_def

lemma telemetry_tiny_noon:
  "compute_telemetry (fixed_generator (1 / 2)) tiny_panel noon 21600 64800 0 1 0 =
     Inr (\<lparr>timestamp_utc = ''2025-10-18T12:00:00Z'', rec_panel_id = ''P00001'',
           rec_string_id = ''S01'', status = ''OK'', fault = ''NONE'',
           power_w = 1 / 100, voltage_v = 3546 / 100, current_a = 0,
           irradiance_wm2 = 850, ambient_temp_c = 30, cell_temp_c = 5125 / 100,
           rec_orientation_deg = 180, rec_tilt_deg = 25\<rparr>, 3)"
  by (simp add: telemetry_eval tiny_panel_def example_panel_def)

lemma telemetry_example_noon:
  "compute_telemetry (fixed_generator (1 / 2)) example_panel noon 21600 64800 0 1 0 =
     Inr (\<lparr>timestamp_utc = ''2025-10-18T12:00:00Z'', rec_panel_id = ''P00001'',
           rec_string_id = ''S01'', status = ''OK'', fault = ''NONE'',
           power_w = 3043 / 10, voltage_v = 36, current_a = 8453 / 1000,
           irradiance_wm2 = 850, ambient_temp_c = 30, cell_temp_c = 5125 / 100,
           rec_orientation_deg = 180, rec_tilt_deg = 25\<rparr>, 3)"
  by (simp add: telemetry_eval example_panel_def)

lemma telemetry_string_open_noon:
  "compute_telemetry (fixed_generator (22 / 10000)) example_panel noon 21600 64800 0 1 0 =
     Inr (\<lparr>timestamp_utc = ''2025-10-18T12:00:00Z'', rec_panel_id = ''P00001'',
           rec_string_id = ''S01'', status = ''FAULT'', fault = ''STRING_OPEN'',
           power_w = 0, voltage_v = 3492 / 100, current_a = 0,
           irradiance_wm2 = 850, ambient_temp_c = 30, cell_temp_c = 5125 / 100,
           rec_orientation_deg = 180, rec_tilt_deg = 25\<rparr>, 3)"
  by (simp add: telemetry_eval example_panel_def)

subsection \<open>The stages of the telemetry computation\<close>

lemma sound_fixed_generator: "0 \<le> u \<Longrightarrow> u < 1 \<Longrightarrow> sound_generator (fixed_generator u)"
  by (simp add: sound_generator_def fixed_generator_def)

lemma clamped_power_range:
  assumes "0 \<le> p_stc_w spec"
  shows "0 \<le> clamped_power spec irr cell_c orient_mod degr_factor noise \<and>
         clamped_power spec irr cell_c orient_mod degr_factor noise \<le> 110 / 100 * p_stc_w spec"
  using assms unfolding clamped_power_def Let_def by auto

lemma clamped_power_dark: "clamped_power spec 0 cell_c orient_mod degr_factor noise = 0"
  unfolding clamped_power_def Let_def by auto

lemma scale_down:
  fixes p f :: real
  assumes "0 \<le> p" "0 \<le> f" "f \<le> 1"
  shows "0 \<le> p * f \<and> p * f \<le> p"
proof -
  have "p * f \<le> p * 1" using assms by (intro mult_left_mono) simp_all
  then show ?thesis using assms by simp
qed

lemma fault_effects_power:
  assumes "sound_generator G" "0 \<le> p"
    and "fault_effects G flt p i c g = (p', i', c', g')"
  shows "0 \<le> p' \<and> p' \<le> p"
proof -
  have sh: "\<And>a b x h. a \<le> b \<Longrightarrow> 0 \<le> a \<Longrightarrow> b \<le> 1 \<Longrightarrow> uniform G a b g = (x, h) \<Longrightarrow> 0 \<le> p * x \<and> p * x \<le> p"
  proof -
    fix a b x :: real and h
    assume "a \<le> b" "0 \<le> a" "b \<le> 1" "uniform G a b g = (x, h)"
    then have "a \<le> x \<and> x \<le> b" using uniform_range [OF assms(1)] by blast
    then have "0 \<le> x" "x \<le> 1" using \<open>0 \<le> a\<close> \<open>b \<le> 1\<close> by simp_all
    then show "0 \<le> p * x \<and> p * x \<le> p" using scale_down assms(2) by blast
  qed
  show ?thesis
    using assms(2,3) sh [of "6 / 10" "9 / 10"] sh [of "4 / 10" "8 / 10"] sh [of "8 / 10" "95 / 100"]
    unfolding fault_effects_def
    by (auto split: if_splits prod.splits)
qed

lemma fault_effects_dark:
  "fault_effects G flt 0 i c g = (p', i', c', g') \<Longrightarrow> p' = 0"
  unfolding fault_effects_def by (auto split: if_splits prod.splits)

lemma fault_effects_hard_zero:
  "flt = ''STRING_OPEN'' \<or> flt = ''INVERTER_TRIP'' \<Longrightarrow>
   fault_effects G flt p i c g = (p', i', c', g') \<Longrightarrow> p' = 0"
  unfolding fault_effects_def by (auto split: if_splits prod.splits)

lemma recompute_current_zero: "recompute_current 0 v = 0"
  by (simp add: recompute_current_def)

lemma recompute_current_nonneg: "0 \<le> max 0 (recompute_current p v)"
  by simp

text \<open>
  C1. \<open>ambient_temperature_c\<close> is \<open>base + 8 * sin (phase - pi / 6)\<close> (lemma
  \<open>ambient_formula\<close>), so its daily maximum \<open>base + 8\<close> is reached at 08:00
  (28800 seconds since midnight): no timestamp is warmer than 08:00, and at 15:00
  (54000 seconds) the temperature is below \<open>base\<close>. The peak the function's comment and
  docstring place at 15:00 is not there.
\<close>

theorem ambient_temperature_peak_at_0800:
  "ambient_temperature_c ts base \<le> ambient_temperature_c eight_am base \<and>
   ambient_temperature_c eight_am base = base + 8 \<and>
   ambient_temperature_c three_pm base < base"
  using sin_pi_12_positive by (simp add: ambient_eight_am ambient_three_pm ambient_upper)

subsection \<open>Claims about the telemetry record\<close>

text \<open>
  C4. Whatever the panel, the timestamp, the daylight window, the day index, the cloud
  factor and the draws, a record that \<open>compute_telemetry\<close> returns has \<open>power_w\<close>,
  \<open>voltage_v\<close> and \<open>current_a\<close> at least 0. A record is returned whenever the generator
  keeps its contract, \<open>v_mppt\<close> is positive, the daily degradation lies in \<open>[0, 1]\<close> and
  the day index is a non-negative int that a float can hold.
\<close>

theorem telemetry_non_negative:
  "(sound_generator G \<and> 0 < v_mppt spec \<and>
    0 \<le> degradation_per_day spec \<and> degradation_per_day spec \<le> 1 \<and>
    0 \<le> day_index \<and> \<not> float_overflow (of_int day_index)
      \<longrightarrow> (\<exists>rec g'. compute_telemetry G spec ts dl_start dl_end day_index cloud_factor g0 = Inr (rec, g'))) \<and>
   (\<forall>rec g'. compute_telemetry G spec ts dl_start dl_end day_index cloud_factor g0 = Inr (rec, g')
      \<longrightarrow> 0 \<le> power_w rec \<and> 0 \<le> voltage_v rec \<and> 0 \<le> current_a rec)"
proof (intro conjI allI impI)
  assume "sound_generator G \<and> 0 < v_mppt spec \<and>
    0 \<le> degradation_per_day spec \<and> degradation_per_day spec \<le> 1 \<and>
    0 \<le> day_index \<and> \<not> float_overflow (of_int day_index)"
  then show "\<exists>rec g'. compute_telemetry G spec ts dl_start dl_end day_index cloud_factor g0 = Inr (rec, g')"
    by (intro compute_telemetry_returns) simp_all
next
  fix rec g'
  assume r: "compute_telemetry G spec ts dl_start dl_end day_index cloud_factor g0 = Inr (rec, g')"
  from r show "0 \<le> power_w rec"
    by (rule compute_telemetry_cases) (simp add: py_round_nonneg)
  from r show "0 \<le> voltage_v rec"
    by (rule compute_telemetry_cases) (simp add: py_round_nonneg)
  from r show "0 \<le> current_a rec"
    by (rule compute_telemetry_cases) (simp add: py_round_nonneg)
qed

theorem telemetry_non_negative_witness:
  "(\<exists>rec g'. compute_telemetry (fixed_generator (1 / 2)) example_panel noon 21600 64800 0 1 0 = Inr (rec, g') \<and>
      0 \<le> power_w rec \<and> 0 \<le> voltage_v rec \<and> 0 \<le> current_a rec)"
proof -
  have "\<not> float_overflow (of_int 0)"
    by (intro float_overflow_53) simp
  then show ?thesis
    using telemetry_non_negative [of "fixed_generator (1 / 2)" example_panel 0 noon 21600 64800 1 0]
      sound_fixed_generator [of "1 / 2"]
    by (auto simp: example_panel_def)
qed

text \<open>
  C5. Whenever the fault assigned inside \<open>compute_telemetry\<close> (the record's \<open>fault\<close>) is
  STRING_OPEN or INVERTER_TRIP, the returned record has \<open>power_w = 0\<close> and
  \<open>current_a = 0\<close>, whatever the irradiance and the baseline values were.
\<close>

theorem telemetry_hard_zero_faults:
  assumes "compute_telemetry G spec ts dl_start dl_end day_index cloud_factor g0 = Inr (rec, g')"
    and "fault rec = ''STRING_OPEN'' \<or> fault rec = ''INVERTER_TRIP''"
  shows "power_w rec = 0 \<and> current_a rec = 0"
  using assms(1)
proof (rule compute_telemetry_cases)
  fix flt p_dc' v
  fix p i c g3 i' cell_c'
  assume f: "fault rec = flt"
    and e: "fault_effects G flt p i c g3 = (p_dc', i', cell_c', g')"
    and pw: "power_w rec = py_round (max 0 p_dc') 2"
    and cu: "current_a rec = py_round (max 0 (recompute_current p_dc' v)) 3"
  have "p_dc' = 0"
    using fault_effects_hard_zero [OF _ e] assms(2) f by simp
  then show ?thesis
    using pw cu by (simp add: recompute_current_zero py_round_zero)
qed

theorem telemetry_hard_zero_faults_witness:
  "\<exists>rec g'. compute_telemetry (fixed_generator (22 / 10000)) example_panel noon 21600 64800 0 1 0
       = Inr (rec, g') \<and>
     fault rec = ''STRING_OPEN'' \<and> power_w rec = 0 \<and> current_a rec = 0"
proof (intro exI conjI)
  let ?r = "\<lparr>timestamp_utc = ''2025-10-18T12:00:00Z'', rec_panel_id = ''P00001'',
           rec_string_id = ''S01'', status = ''FAULT'', fault = ''STRING_OPEN'',
           power_w = 0, voltage_v = 3492 / 100, current_a = 0,
           irradiance_wm2 = 850, ambient_temp_c = 30, cell_temp_c = 5125 / 100,
           rec_orientation_deg = 180, rec_tilt_deg = 25\<rparr>"
  show run: "compute_telemetry (fixed_generator (22 / 10000)) example_panel noon 21600 64800 0 1 0
       = Inr (?r, 3)"
    by (rule telemetry_string_open_noon)
  show f: "fault ?r = ''STRING_OPEN''"
    by simp
  show "power_w ?r = 0" "current_a ?r = 0"
    using telemetry_hard_zero_faults [OF run] f by blast+
qed

text \<open>
  C3, as the code has it. For a panel with \<open>p_stc_w > 0\<close> and a generator that keeps its
  contract, the power before rounding lies in \<open>[0, 1.10 * p_stc_w]\<close> (the clamp bounds
  it and a fault only scales it down), and the record's \<open>power_w\<close> is that value rounded
  to two decimals: it lies in \<open>[0, 1.10 * p_stc_w + 0.005]\<close>.
\<close>

theorem telemetry_power_bound:
  assumes "0 < p_stc_w spec" "sound_generator G"
    and "compute_telemetry G spec ts dl_start dl_end day_index cloud_factor g0 = Inr (rec, g')"
  shows "(\<exists>p. 0 \<le> p \<and> p \<le> 110 / 100 * p_stc_w spec \<and> power_w rec = py_round p 2) \<and>
         0 \<le> power_w rec \<and> power_w rec \<le> 110 / 100 * p_stc_w spec + 5 / 1000"
  using assms(3)
proof (rule compute_telemetry_cases)
  fix flt p_dc' i c g3 i' cell_c'
  fix ir cc oo dd nn
  assume e: "fault_effects G flt (clamped_power spec ir cc oo dd nn) i c g3 = (p_dc', i', cell_c', g')"
    and pw: "power_w rec = py_round (max 0 p_dc') 2"
  have c: "0 \<le> clamped_power spec ir cc oo dd nn"
    "clamped_power spec ir cc oo dd nn \<le> 110 / 100 * p_stc_w spec"
    using clamped_power_range [of spec] assms(1) by simp_all
  have "0 \<le> p_dc' \<and> p_dc' \<le> clamped_power spec ir cc oo dd nn"
    using fault_effects_power [OF assms(2) c(1) e] .
  then have b: "0 \<le> p_dc'" "p_dc' \<le> 110 / 100 * p_stc_w spec"
    using c(2) by simp_all
  then have pw': "power_w rec = py_round p_dc' 2"
    using pw by (simp add: max_def)
  have "py_round p_dc' 2 \<le> p_dc' + 1 / (2 * 10 ^ 2)"
    by (rule py_round_upper)
  then have "power_w rec \<le> 110 / 100 * p_stc_w spec + 5 / 1000"
    using b(2) pw' by simp
  moreover have "0 \<le> power_w rec"
    using b(1) pw' by (simp add: py_round_nonneg)
  ultimately show ?thesis
    using b pw' by blast
qed

theorem telemetry_power_bound_witness:
  "\<exists>rec g'. compute_telemetry (fixed_generator (1 / 2)) example_panel noon 21600 64800 0 1 0
       = Inr (rec, g') \<and>
     0 < p_stc_w example_panel \<and> sound_generator (fixed_generator (1 / 2)) \<and>
     0 \<le> power_w rec \<and> power_w rec \<le> 110 / 100 * p_stc_w example_panel + 5 / 1000"
proof -
  have rated: "0 < p_stc_w example_panel"
    by (simp add: example_panel_def)
  have sound: "sound_generator (fixed_generator (1 / 2))"
    by (simp add: sound_fixed_generator)
  show ?thesis
    using telemetry_power_bound [OF rated sound telemetry_example_noon] rated sound
      telemetry_example_noon
    by blast
qed

text \<open>
  C3, as stated, fails: rounding to two decimals can lift \<open>power_w\<close> above
  \<open>1.10 * p_stc_w\<close>. A panel rated 0.008 W at noon under a clear sky produces
  0.006086 W, emitted as 0.01 W, above the cap of 0.0088 W.
\<close>

theorem telemetry_power_above_cap:
  "compute_telemetry (fixed_generator (1 / 2)) tiny_panel noon 21600 64800 0 1 0 =
     Inr (\<lparr>timestamp_utc = ''2025-10-18T12:00:00Z'', rec_panel_id = ''P00001'',
           rec_string_id = ''S01'', status = ''OK'', fault = ''NONE'',
           power_w = 1 / 100, voltage_v = 3546 / 100, current_a = 0,
           irradiance_wm2 = 850, ambient_temp_c = 30, cell_temp_c = 5125 / 100,
           rec_orientation_deg = 180, rec_tilt_deg = 25\<rparr>, 3) \<and>
   0 < p_stc_w tiny_panel \<and> 110 / 100 * p_stc_w tiny_panel < 1 / 100"
proof (intro conjI)
  show "compute_telemetry (fixed_generator (1 / 2)) tiny_panel noon 21600 64800 0 1 0 =
     Inr (\<lparr>timestamp_utc = ''2025-10-18T12:00:00Z'', rec_panel_id = ''P00001'',
           rec_string_id = ''S01'', status = ''OK'', fault = ''NONE'',
           power_w = 1 / 100, voltage_v = 3546 / 100, current_a = 0,
           irradiance_wm2 = 850, ambient_temp_c = 30, cell_temp_c = 5125 / 100,
           rec_orientation_deg = 180, rec_tilt_deg = 25\<rparr>, 3)"
    by (rule telemetry_tiny_noon)
  show "0 < p_stc_w tiny_panel" "110 / 100 * p_stc_w tiny_panel < 1 / 100"
    by (simp_all add: tiny_panel_def example_panel_def)
qed

text \<open>
  C10. For a panel with \<open>v_mppt > 0\<close> and a generator that keeps its contract, the
  voltage \<open>v\<close> computed around the operating point is strictly positive, whatever the
  power and the generator's state: the division \<open>p_dc / v\<close> of that block raises
  nothing, and the later guard \<open>v > 0\<close> always takes the dividing branch, never the
  fallback to 0. So \<open>compute_telemetry\<close> returns a record on every such input whose
  degradation power is defined: a daily degradation in \<open>[0, 1]\<close> and a non-negative day
  index that a float can hold.
\<close>

theorem mppt_voltage_positive:
  assumes "0 < v_mppt spec" "sound_generator G"
  shows "(\<exists>v i g'. mppt_point G spec p_dc g = Inr (v, i, g') \<and> 0 < v \<and>
            (\<forall>p. recompute_current p v = p / v)) \<and>
         (0 \<le> degradation_per_day spec \<and> degradation_per_day spec \<le> 1 \<and>
          0 \<le> day_index \<and> \<not> float_overflow (of_int day_index)
            \<longrightarrow> (\<exists>rec g'. compute_telemetry G spec ts dl_start dl_end day_index cloud_factor g0
                  = Inr (rec, g')))"
proof (intro conjI impI)
  obtain v i g' where "mppt_point G spec p_dc g = Inr (v, i, g')" "0 < v"
    using mppt_point_positive [OF assms(2,1)] by blast
  then show "\<exists>v i g'. mppt_point G spec p_dc g = Inr (v, i, g') \<and> 0 < v \<and>
            (\<forall>p. recompute_current p v = p / v)"
    by (auto simp: recompute_current_def)
next
  assume "0 \<le> degradation_per_day spec \<and> degradation_per_day spec \<le> 1 \<and>
          0 \<le> day_index \<and> \<not> float_overflow (of_int day_index)"
  then show "\<exists>rec g'. compute_telemetry G spec ts dl_start dl_end day_index cloud_factor g0
                  = Inr (rec, g')"
    using assms by (intro compute_telemetry_returns) simp_all
qed

theorem mppt_voltage_positive_witness:
  "(\<exists>v i g'. mppt_point (fixed_generator (1 / 2)) example_panel (3043 / 10) 1 = Inr (v, i, g') \<and>
      0 < v \<and> (\<forall>p. recompute_current p v = p / v)) \<and>
   (\<exists>rec g'. compute_telemetry (fixed_generator (1 / 2)) example_panel noon 21600 64800 0 1 0
      = Inr (rec, g'))"
proof -
  have "\<not> float_overflow (of_int 0)"
    by (intro float_overflow_53) simp
  then show ?thesis
    using mppt_voltage_positive
        [of example_panel "fixed_generator (1 / 2)" "3043 / 10" 1 0 noon 21600 64800 1 0]
      sound_fixed_generator [of "1 / 2"]
    by (simp add: example_panel_def)
qed

subsection \<open>Fault assignment\<close>

lemma walk_catalog_chain:
  "walk_catalog r 0 FAULT_CATALOG =
     (if r \<le> 0 then (''NONE'', ''OK'')
      else if r \<le> 15 / 10000 then (''SHADING'', ''WARNING'')
      else if r \<le> 20 / 10000 then (''HOTSPOT'', ''FAULT'')
      else if r \<le> 24 / 10000 then (''STRING_OPEN'', ''FAULT'')
      else if r \<le> 27 / 10000 then (''INVERTER_TRIP'', ''FAULT'')
      else if r \<le> 35 / 10000 then (''SOILING'', ''WARNING'')
      else (''NONE'', ''OK''))"
  by (simp add: FAULT_CATALOG_def Let_def)

lemma walk_catalog_default:
  "acc + sum_list (map (\<lambda>(fault, status, p). p) cat) < r \<Longrightarrow> (\<forall>(fault, status, p) \<in> set cat. 0 \<le> p)
   \<Longrightarrow> walk_catalog r acc cat = (''NONE'', ''OK'')"
proof (induction cat arbitrary: acc)
  case Nil
  then show ?case by simp
next
  case (Cons e cat)
  obtain f s p where e: "e = (f, s, p)" by (cases e)
  have nn: "0 \<le> sum_list (map (\<lambda>(fault, status, p). p) cat)"
    using Cons.prems(2) by (intro sum_list_nonneg) auto
  have "acc + p < r" using Cons.prems(1) nn e by simp
  moreover have "walk_catalog r (acc + p) cat = (''NONE'', ''OK'')"
    using Cons.prems e by (intro Cons.IH) (simp_all add: add.assoc)
  ultimately show ?case using e by (simp add: Let_def)
qed

lemma catalog_mass_value: "catalog_mass = 35 / 10000"
  by (simp add: catalog_mass_def FAULT_CATALOG_def)

text \<open>
  C2, as the code has it. \<open>assign_fault\<close> draws one sample \<open>r\<close> and walks the catalog in
  table order, returning the first entry whose accumulated mass reaches \<open>r\<close> and NONE/OK
  when none does. Within the sample space \<open>[0, 1)\<close> each outcome is drawn exactly on an
  interval, whose length is its probability under a uniform sample: SHADING/WARNING
  0.0015, HOTSPOT/FAULT 0.0005, STRING_OPEN/FAULT 0.0004, INVERTER_TRIP/FAULT 0.0003,
  SOILING/WARNING 0.0008, and NONE/OK the point 0 and the interval above the accumulated
  mass 0.0035, of length 0.9965.
\<close>

theorem assign_fault_distribution:
  "assign_fault G g = (walk_catalog (fst (rng_random G g)) 0 FAULT_CATALOG, snd (rng_random G g)) \<and>
   {r. 0 \<le> r \<and> r < 1 \<and> walk_catalog r 0 FAULT_CATALOG = (''SHADING'', ''WARNING'')} = {0 <.. 15 / 10000} \<and>
   {r. 0 \<le> r \<and> r < 1 \<and> walk_catalog r 0 FAULT_CATALOG = (''HOTSPOT'', ''FAULT'')} = {15 / 10000 <.. 20 / 10000} \<and>
   {r. 0 \<le> r \<and> r < 1 \<and> walk_catalog r 0 FAULT_CATALOG = (''STRING_OPEN'', ''FAULT'')} = {20 / 10000 <.. 24 / 10000} \<and>
   {r. 0 \<le> r \<and> r < 1 \<and> walk_catalog r 0 FAULT_CATALOG = (''INVERTER_TRIP'', ''FAULT'')} = {24 / 10000 <.. 27 / 10000} \<and>
   {r. 0 \<le> r \<and> r < 1 \<and> walk_catalog r 0 FAULT_CATALOG = (''SOILING'', ''WARNING'')} = {27 / 10000 <.. 35 / 10000} \<and>
   {r. 0 \<le> r \<and> r < 1 \<and> walk_catalog r 0 FAULT_CATALOG = (''NONE'', ''OK'')} = {0} \<union> {35 / 10000 <..< 1} \<and>
   1 - catalog_mass = 9965 / 10000"
proof (intro conjI)
  show "assign_fault G g = (walk_catalog (fst (rng_random G g)) 0 FAULT_CATALOG, snd (rng_random G g))"
    by (simp add: assign_fault_def split: prod.splits)
  show "1 - catalog_mass = 9965 / 10000"
    by (simp add: catalog_mass_value)
qed (auto simp: walk_catalog_chain split: if_splits)

text \<open>
  C2, as stated, fails in its last figure: the remainder left to NONE/OK is 0.9965 and
  not 0.9975. The difference, 0.001, is more than the whole mass of SOILING; the sample
  0.003, which a remainder of 0.9975 would leave to NONE/OK, is SOILING/WARNING.
\<close>

theorem assign_fault_none_mass:
  "walk_catalog (3 / 1000) 0 FAULT_CATALOG = (''SOILING'', ''WARNING'') \<and>
   1 - 9975 / 10000 < (3 / 1000 :: real) \<and>
   9975 / 10000 - (1 - catalog_mass) = 1 / 1000"
  by (simp add: walk_catalog_chain catalog_mass_value)

subsection \<open>The daylight window\<close>

lemma unpack2_Inr: "unpack2 xs = Inr (a, b) \<longleftrightarrow> xs = [a, b]"
  by (cases xs rule: unpack2.cases) auto

lemma unpack2_length: "(\<exists>p. unpack2 xs = Inr p) \<longleftrightarrow> length xs = 2"
  by (cases xs rule: unpack2.cases) auto

lemma int_fields_Inr: "int_fields to_int xs = Inr ks \<Longrightarrow> map to_int xs = map Some ks"
  by (induction xs arbitrary: ks) (auto split: option.splits sum.splits)

lemma int_fields_length: "int_fields to_int xs = Inr ks \<Longrightarrow> length ks = length xs"
  using int_fields_Inr [of to_int xs ks] by (metis length_map)

lemma int_fields_no_None:
  assumes "int_fields to_int xs = Inr ks"
  shows "\<not> list_ex (\<lambda>f. to_int f = None) xs"
proof
  assume "list_ex (\<lambda>f. to_int f = None) xs"
  then obtain f where "f \<in> set xs" "to_int f = None"
    by (auto simp: list_ex_iff)
  then have "None \<in> set (map to_int xs)"
    by force
  then have "None \<in> set (map Some ks)"
    using int_fields_Inr [OF assms] by simp
  then show False
    by auto
qed

lemma parse_window_body_Inr:
  assumes "parse_window_body to_int daylight = Inr w"
  shows "\<not> malformed_window to_int daylight"
proof -
  from assms obtain s e sf ef where
    parts: "unpack2 (split_on (CHR ''-'') daylight) = Inr (s, e)" and
    sf: "int_fields to_int (split_on (CHR '':'') s) = Inr sf" "\<exists>p. unpack2 sf = Inr p" and
    ef: "int_fields to_int (split_on (CHR '':'') e) = Inr ef" "\<exists>p. unpack2 ef = Inr p"
    unfolding parse_window_body_def Let_def
    by (auto split: sum.splits prod.splits)
  have two: "split_on (CHR ''-'') daylight = [s, e]"
    using parts by (simp add: unpack2_Inr)
  have "length (split_on (CHR '':'') s) = 2" "length (split_on (CHR '':'') e) = 2"
    using sf ef int_fields_length unpack2_length by metis+
  moreover have "\<not> list_ex (\<lambda>f. to_int f = None) (split_on (CHR '':'') s)"
    "\<not> list_ex (\<lambda>f. to_int f = None) (split_on (CHR '':'') e)"
    using sf(1) ef(1) by (simp_all add: int_fields_no_None)
  ultimately show ?thesis
    by (simp add: malformed_window_def two)
qed

lemma split_dash_example: "split_on (CHR ''-'') ''6am-6pm'' = [''6am'', ''6pm'']"
  by (simp add: split_on_def)

lemma parse_well_formed_example:
  "parse_daylight_window digits_to_int ''07:30-19:00'' = Inr (27000, 68400)"
  by (simp add: parse_daylight_window_def parse_window_body_def split_on_def digits_to_int_def Let_def)

lemma malformed_example: "malformed_window digits_to_int ''6am-6pm''"
  by (simp add: malformed_window_def split_on_def digits_to_int_def)

text \<open>
  C8. For every input string \<open>parse_daylight_window\<close> raises nothing, and whenever the
  string does not parse as \<^verbatim>\<open>HH:MM-HH:MM\<close> it returns the default window
  \<open>(21600, 64800)\<close>, 06:00 to 18:00. This holds for every behaviour \<open>to_int\<close> of the
  builtin \<^verbatim>\<open>int\<close>.
\<close>

theorem parse_daylight_window_default:
  "(\<exists>w. parse_daylight_window to_int daylight = Inr w) \<and>
   (malformed_window to_int daylight
      \<longrightarrow> parse_daylight_window to_int daylight = Inr (21600, 64800))"
proof (intro conjI impI)
  show "\<exists>w. parse_daylight_window to_int daylight = Inr w"
    by (simp add: parse_daylight_window_def split: sum.splits)
  assume bad: "malformed_window to_int daylight"
  have "\<exists>err. parse_window_body to_int daylight = Inl err"
  proof (cases "parse_window_body to_int daylight")
    case (Inl err)
    then show ?thesis by simp
  next
    case (Inr w)
    then show ?thesis using bad parse_window_body_Inr by blast
  qed
  then show "parse_daylight_window to_int daylight = Inr (21600, 64800)"
    by (auto simp: parse_daylight_window_def)
qed

theorem parse_daylight_window_default_witness:
  "malformed_window digits_to_int ''6am-6pm'' \<and>
   parse_daylight_window digits_to_int ''6am-6pm'' = Inr (21600, 64800)"
  using parse_daylight_window_default [of digits_to_int "''6am-6pm''"] malformed_example
  by blast

subsection \<open>Fleet generator\<close>

lemma choice_total:
  assumes "sound_generator G" "seq \<noteq> []"
  shows "\<exists>x g'. choice G seq g = Inr (x, g')"
proof -
  have "fst (rng_randbelow G (length seq) g) < length seq"
    using assms by (simp add: sound_generator_def)
  then show ?thesis
    by (cases "rng_randbelow G (length seq) g") (simp add: choice_def)
qed

lemma make_panel_total:
  assumes "sound_generator G"
  shows "\<exists>spec g'. make_panel G i g = Inr (spec, g')"
proof -
  obtain p g1 where p: "uniform G 370 430 g = (p, g1)"
    by (cases "uniform G 370 430 g")
  obtain v g2 where v: "uniform G 33 40 g1 = (v, g2)"
    by (cases "uniform G 33 40 g1")
  have "33 \<le> v"
    using uniform_range [OF assms _ v] by simp
  then have nz: "v \<noteq> 0"
    by simp
  obtain f g3 where f: "uniform G (95 / 100) (105 / 100) g2 = (f, g3)"
    by (cases "uniform G (95 / 100) (105 / 100) g2")
  obtain c g4 where c: "uniform G (- 45 / 10000) (- 35 / 10000) g3 = (c, g4)"
    by (cases "uniform G (- 45 / 10000) (- 35 / 10000) g3")
  obtain d g5 where d: "uniform G (3 / 100000) (7 / 100000) g4 = (d, g5)"
    by (cases "uniform G (3 / 100000) (7 / 100000) g4")
  obtain j g6 where j: "uniform G (98 / 100) (102 / 100) g5 = (j, g6)"
    by (cases "uniform G (98 / 100) (102 / 100) g5")
  obtain oc g7 where oc: "choice G [150, 165, 180, 195, 210 :: int] g6 = Inr (oc, g7)"
    using choice_total [OF assms, of "[150, 165, 180, 195, 210 :: int]" g6] by auto
  obtain oj g8 where oj: "uniform G (- 5) 5 g7 = (oj, g8)"
    by (cases "uniform G (- 5) 5 g7")
  obtain tc g9 where tc: "choice G [15, 20, 25, 30, 35 :: int] g8 = Inr (tc, g9)"
    using choice_total [OF assms, of "[15, 20, 25, 30, 35 :: int]" g8] by auto
  obtain tj g10 where tj: "uniform G (- 2) 2 g9 = (tj, g10)"
    by (cases "uniform G (- 2) 2 g9")
  show ?thesis
    unfolding make_panel_def Let_def
    using p v nz f c d j oc oj tc tj
    by (simp add: py_truediv_def)
qed

lemma fleet_loop_length:
  "fleet_loop G idx fleet g = Inr (fleet', g') \<Longrightarrow> length fleet' = length fleet + length idx"
proof (induction idx arbitrary: fleet g)
  case Nil
  then show ?case by simp
next
  case (Cons i idx)
  then show ?case
    by (auto split: sum.splits prod.splits)
qed

lemma fleet_loop_total:
  assumes "sound_generator G"
  shows "\<exists>fleet' g'. fleet_loop G idx fleet g = Inr (fleet', g')"
proof (induction idx arbitrary: fleet g)
  case Nil
  then show ?case by simp
next
  case (Cons i idx)
  obtain spec g1 where "make_panel G i g = Inr (spec, g1)"
    using make_panel_total [OF assms] by blast
  then show ?case
    using Cons.IH [of "fleet @ [spec]" g1] by simp
qed

lemma fleet_of_one:
  "generate_panel_fleet (fixed_generator (1 / 2)) 1 42 7 =
     Inr ([\<lparr>panel_id = ''P00001'', p_stc_w = 400, v_mppt = 73 / 2, i_stc_a = 800 / 73,
             temp_coeff_p = - 4 / 1000, degradation_per_day = 5 / 100000, efficiency_jitter = 1,
             orientation_deg = 150, tilt_deg = 15, string_id = ''S01''\<rparr>], 10)"
  by (simp add: generate_panel_fleet_def make_panel_def uniform_def choice_def fixed_generator_def
      py_truediv_def format_0d_def dec_digits.simps Let_def)
    (simp add: numeral_eq_Suc)

text \<open>
  C7. For every count \<open>n \<ge> 0\<close> and every seed, two calls of
  \<open>generate_panel_fleet n seed\<close> made in any two states \<open>g1\<close> and \<open>g2\<close> of the generator
  (whatever was drawn before or between them) both return, with the same sequence of
  exactly \<open>n\<close> panels and the same final state: the call starts by reseeding. The
  generator is any that keeps the library's contract, under which no division and no
  indexing of the loop raises.
\<close>

theorem generate_panel_fleet_deterministic:
  assumes "sound_generator G" "0 \<le> n"
  shows "\<exists>fleet gf. generate_panel_fleet G n seed g1 = Inr (fleet, gf) \<and>
           generate_panel_fleet G n seed g2 = Inr (fleet, gf) \<and>
           int (length fleet) = n"
proof -
  obtain fleet gf where run: "fleet_loop G [0..<nat n] [] (rng_seed G seed) = Inr (fleet, gf)"
    using fleet_loop_total [OF assms(1)] by blast
  then have "length fleet = nat n"
    using fleet_loop_length [OF run] by simp
  then have "int (length fleet) = n"
    using assms(2) by simp
  then show ?thesis
    using run by (simp add: generate_panel_fleet_def)
qed

theorem generate_panel_fleet_deterministic_witness:
  "\<exists>fleet gf. generate_panel_fleet (fixed_generator (1 / 2)) 2 42 0 = Inr (fleet, gf) \<and>
           generate_panel_fleet (fixed_generator (1 / 2)) 2 42 7 = Inr (fleet, gf) \<and>
           int (length fleet) = 2"
  using generate_panel_fleet_deterministic [of "fixed_generator (1 / 2)" 2 42 0 7]
    sound_fixed_generator [of "1 / 2"]
  by simp

subsection \<open>What exact arithmetic gives and floating point does not\<close>

text \<open>
  Two statements hold in this model only because its arithmetic is exact, and are
  therefore lemmas about the model, not about the program.

  The first: strictly inside the daylight window the irradiance factor is positive
  (lemma \<open>diurnal_inside\<close>). In the program \<^verbatim>\<open>base ** 1.5\<close> underflows to \<^verbatim>\<open>0.0\<close> once
  the window is wide enough (a span above about \<open>10 ^ 215\<close> seconds, which the command
  line can deliver), and the factor is then exactly 0 inside the window.

  The second, below: at or outside the window a returned record has irradiance, power
  and current exactly 0. In the program a cloud factor that is infinite or NaN, or a
  temperature coefficient large enough to overflow its product, turns the zero baseline
  into NaN, which the clamp \<^verbatim>\<open>min(cap, nan)\<close> replaces by the cap \<open>1.10 * p_stc_w\<close>.
\<close>

lemma telemetry_dark_in_exact_arithmetic:
  assumes "seconds_since_midnight ts \<le> dl_start \<or> dl_end \<le> seconds_since_midnight ts"
    and "compute_telemetry G spec ts dl_start dl_end day_index cloud_factor g0 = Inr (rec, g')"
  shows "irradiance_wm2 rec = 0 \<and> power_w rec = 0 \<and> current_a rec = 0"
proof -
  have sun: "diurnal_irradiance_factor ts dl_start dl_end = Inr 0"
    using assms(1) by (rule diurnal_outside)
  from assms(2) have irr: "irradiance_wm2 rec = 0"
    by (rule compute_telemetry_cases) (simp add: sun py_round_zero)
  from assms(2) have "power_w rec = 0 \<and> current_a rec = 0"
  proof (rule compute_telemetry_cases)
    fix sun_f p i c g3 p_dc' i' cell_c' flt v
    fix cc oo dd nn
    assume s: "diurnal_irradiance_factor ts dl_start dl_end = Inr sun_f"
      and e: "fault_effects G flt (clamped_power spec (1000 * sun_f * cloud_factor) cc oo dd nn) i c g3
                = (p_dc', i', cell_c', g')"
      and pw: "power_w rec = py_round (max 0 p_dc') 2"
      and cu: "current_a rec = py_round (max 0 (recompute_current p_dc' v)) 3"
    have "sun_f = 0"
      using s sun by simp
    then have "p_dc' = 0"
      using e fault_effects_dark by (simp add: clamped_power_dark)
    then show ?thesis
      using pw cu by (simp add: recompute_current_zero py_round_zero)
  qed
  with irr show ?thesis
    by simp
qed

end
